theory Spec2Isabelle
  imports Main
begin

section \<open>The domain registry of httpns.js\<close>

text \<open>
  The constructor of \<^verbatim>\<open>HTTPNS\<close> keeps its private options in
  \<^verbatim>\<open>this[priv] = { port, path, https, http, domains }\<close>, where
  \<^verbatim>\<open>domains\<close> is a plain object used as a dictionary from domain names to
  \<^verbatim>\<open>{ emitter, context }\<close> entries.

  The \<^verbatim>\<open>context\<close> property of an entry is whatever the caller of
  \<^verbatim>\<open>register\<close> supplied: a secure context object, a string naming another
  domain, or nothing. A secure context is opaque here (a number identifies it).
\<close>

datatype context_value =
    Context nat
  | AliasString string
  | Undefined

text \<open>
  JavaScript truthiness of these values (\<^verbatim>\<open>if(context)\<close>): an object is
  truthy, a string is truthy unless it is empty, \<^verbatim>\<open>undefined\<close> is falsy.
\<close>

fun truthy :: "context_value \<Rightarrow> bool" where
  "truthy (Context c) = True"
| "truthy (AliasString s) = (s \<noteq> [])"
| "truthy Undefined = False"

text \<open>
  The response handle of the HTTPS server, as far as this program touches it: whether the
  header went out, whether the response was ended, and the calls that took effect.
\<close>

datatype res_call =
    WriteHead nat "(string \<times> string) list"
  | EndWith string

record response =
  headersSent :: bool
  finished :: bool
  sent :: "res_call list"

text \<open>
  An \<^verbatim>\<open>EventEmitter\<close> is the list of its listeners in the order of their
  registration. A listener is external code: it is given by the event name it subscribed to
  and by what it does to the response handle it receives.
\<close>

type_synonym listener = "string \<times> (response \<Rightarrow> response)"

record entry =
  entry_emitter :: "listener list"
  entry_context :: context_value

text \<open>
  The server object. \<^verbatim>\<open>http\<close> and \<^verbatim>\<open>https\<close> are external
  server objects of which the program reads the \<^verbatim>\<open>listening\<close> flag only.
  \<^verbatim>\<open>emitted\<close> logs the events the object emitted on itself.
\<close>

datatype port_value = Num int | NaN | Undef

datatype notification =
    ErrorEvent string
  | RegistryEvent string
  | RequestEvent string

record httpns =
  port :: port_value
  path :: string
  http_listening :: bool
  https_listening :: bool
  domains :: "string \<rightharpoonup> entry"
  listeners :: "listener list"
  emitted :: "notification list"

text \<open>
  Exceptions are values. A call either returns its result or throws; in both cases the model
  carries the state the program is in at that point, so that what a failed call left behind
  can be stated.
\<close>

datatype js_error =
    Error string
  | TypeError
  | ERR_HTTP_HEADERS_SENT

datatype 'a outcome =
    Returns 'a
  | Throws js_error 'a

subsection \<open>Accessors\<close>

text \<open>
  \<^verbatim>\<open>as(domain, context = false) { if(this[priv].domains[domain]) return context ?
  this[priv].domains[domain].context : this[priv].domains[domain].emitter }\<close>

  \<^verbatim>\<open>domains\<close> is created as \<^verbatim>\<open>{}\<close>, so a property read also finds
  what the object inherits from \<^verbatim>\<open>Object.prototype\<close>. These inherited values are
  functions (and, for \<^verbatim>\<open>__proto__\<close>, the prototype object): truthy, with neither a
  \<^verbatim>\<open>context\<close> nor an \<^verbatim>\<open>emitter\<close> property. Hence \<^verbatim>\<open>as\<close>
  yields \<^verbatim>\<open>undefined\<close> for them as it does for an absent key, while
  \<^verbatim>\<open>has\<close> yields true. The registry is modelled with the prototype it is created
  with: the key \<^verbatim>\<open>__proto__\<close> itself is never a registered domain.
\<close>

definition Object_prototype_keys :: "string list" where
  "Object_prototype_keys =
     [''constructor'', ''__defineGetter__'', ''__defineSetter__'', ''hasOwnProperty'',
      ''__lookupGetter__'', ''__lookupSetter__'', ''isPrototypeOf'',
      ''propertyIsEnumerable'', ''toString'', ''valueOf'', ''__proto__'',
      ''toLocaleString'']"

definition as_context :: "httpns \<Rightarrow> string \<Rightarrow> context_value" where
  "as_context h domain =
     (case domains h domain of
        Some e \<Rightarrow> entry_context e
      | None \<Rightarrow> Undefined)"

definition as_emitter :: "httpns \<Rightarrow> string \<Rightarrow> listener list option" where
  "as_emitter h domain =
     (case domains h domain of
        Some e \<Rightarrow> Some (entry_emitter e)
      | None \<Rightarrow> None)"

definition has :: "httpns \<Rightarrow> string \<Rightarrow> bool" where
  "has h domain =
     (case domains h domain of
        Some e \<Rightarrow> True
      | None \<Rightarrow> domain \<in> set Object_prototype_keys)"

section \<open>The SNI resolver\<close>

text \<open>
  \<^verbatim>\<open>function SNICallbacks(httpns, domain, cb)\<close>. The callback is called exactly
  once, with an error or with the value found; the model returns the registry after the call
  together with what the callback received.
\<close>

datatype cb_result =
    CbError string
  | CbOk context_value

definition set_context :: "httpns \<Rightarrow> string \<Rightarrow> context_value \<Rightarrow> httpns" where
  "set_context h domain v =
     (case domains h domain of
        Some e \<Rightarrow> h\<lparr>domains := (domains h)(domain \<mapsto> e\<lparr>entry_context := v\<rparr>)\<rparr>
      | None \<Rightarrow> h)"

definition SNICallbacks :: "httpns \<Rightarrow> string \<Rightarrow> httpns \<times> cb_result" where
  "SNICallbacks h domain =
     (let h1 = (case as_context h domain of
                  AliasString target \<Rightarrow> set_context h domain (as_context h target)
                | Context c \<Rightarrow> h
                | Undefined \<Rightarrow> h);
          found = as_context h1 domain
      in if truthy found then (h1, CbOk found)
         else (h1, CbError (''Unsupported domain '' @ domain)))"

text \<open>What \<^verbatim>\<open>resolve(domain)\<close> answers, and the registry it leaves.\<close>

definition resolve :: "httpns \<Rightarrow> string \<Rightarrow> cb_result" where
  "resolve h domain = snd (SNICallbacks h domain)"

definition after_resolve :: "httpns \<Rightarrow> string \<Rightarrow> httpns" where
  "after_resolve h domain = fst (SNICallbacks h domain)"

section \<open>The request dispatcher\<close>

text \<open>
  \<^verbatim>\<open>emitter.emit(name, res, req)\<close> runs the listeners subscribed to
  \<^verbatim>\<open>name\<close> in the order of their registration. An \<^verbatim>\<open>EventEmitter\<close>
  throws when the event \<^verbatim>\<open>error\<close> is emitted and nothing listens to it.
\<close>

definition has_listener :: "listener list \<Rightarrow> string \<Rightarrow> bool" where
  "has_listener ls ev = (ev \<in> set (map fst ls))"

fun run_listeners :: "listener list \<Rightarrow> string \<Rightarrow> response \<Rightarrow> response" where
  "run_listeners [] ev r = r"
| "run_listeners ((name, f) # ls) ev r =
     (if name = ev then run_listeners ls ev (f r) else run_listeners ls ev r)"

definition emit :: "listener list \<Rightarrow> string \<Rightarrow> response \<Rightarrow> response outcome" where
  "emit ls ev r =
     (if ev = ''error'' \<and> \<not> has_listener ls ev then Throws (Error ''Unhandled error.'') r
      else Returns (run_listeners ls ev r))"

text \<open>
  The same for the events the server object emits on itself without a response handle
  (\<^verbatim>\<open>error\<close>, \<^verbatim>\<open>registry\<close>): the call is logged, and an
  \<^verbatim>\<open>error\<close> event without a listener throws the error it carries.
\<close>

definition notify :: "httpns \<Rightarrow> notification \<Rightarrow> httpns outcome" where
  "notify h n =
     (let h1 = h\<lparr>emitted := emitted h @ [n]\<rparr>
      in case n of
           ErrorEvent msg \<Rightarrow>
             if has_listener (listeners h) ''error'' then Returns h1 else Throws (Error msg) h1
         | RegistryEvent d \<Rightarrow> Returns h1
         | RequestEvent d \<Rightarrow> Returns h1)"

text \<open>
  A decoded request, as far as the dispatcher reads it. \<^verbatim>\<open>req.headers.host\<close> is
  absent when the request has no Host header; used as a property key, the absent value is
  the string \<^verbatim>\<open>undefined\<close>.
\<close>

record request =
  headers_host :: "string option"
  req_url :: string

definition host_key :: "request \<Rightarrow> string" where
  "host_key req = (case headers_host req of Some s \<Rightarrow> s | None \<Rightarrow> ''undefined'')"

text \<open>
  What the response handle of the HTTPS server does with the two calls of the program:
  \<^verbatim>\<open>writeHead\<close> throws once a header has been written, \<^verbatim>\<open>end\<close> on a
  finished response does nothing.
\<close>

definition writeHead :: "response \<Rightarrow> nat \<Rightarrow> (string \<times> string) list \<Rightarrow> response outcome" where
  "writeHead r code hs =
     (if headersSent r then Throws ERR_HTTP_HEADERS_SENT r
      else Returns (r\<lparr>headersSent := True, sent := sent r @ [WriteHead code hs]\<rparr>))"

definition end_response :: "response \<Rightarrow> string \<Rightarrow> response" where
  "end_response r body =
     (if finished r then r
      else r\<lparr>headersSent := True, finished := True, sent := sent r @ [EndWith body]\<rparr>)"

text \<open>
  The event loop: a clock, the pending timers (due time and the response handle their
  callback closes over, in the order \<^verbatim>\<open>setTimeout\<close> was called) and the response
  handles. The program never calls \<^verbatim>\<open>clearTimeout\<close>, so the model has no
  operation that removes a timer other than its firing.
\<close>

record runtime =
  server :: httpns
  clock :: nat
  timers :: "(nat \<times> nat) list"
  responses :: "nat \<Rightarrow> response"

text \<open>
  \<^verbatim>\<open>function requestForwarder(httpns, req, res) {
    httpns.as(req.headers.host).emit(req.url, res, req)
    httpns.emit('request', req.headers.host, res, req)
    setTimeout(() => { ... }, 5000) }\<close>

  \<^verbatim>\<open>as\<close> returns \<^verbatim>\<open>undefined\<close> for a domain without an entry, and the
  method call on it throws a \<^verbatim>\<open>TypeError\<close>.
\<close>

definition requestForwarder :: "runtime \<Rightarrow> request \<Rightarrow> nat \<Rightarrow> runtime outcome" where
  "requestForwarder rt req res =
     (case as_emitter (server rt) (host_key req) of
        None \<Rightarrow> Throws TypeError rt
      | Some em \<Rightarrow>
          (case emit em (req_url req) (responses rt res) of
             Throws err r \<Rightarrow> Throws err rt
           | Returns r1 \<Rightarrow>
               (case emit (listeners (server rt)) ''request'' r1 of
                  Throws err r \<Rightarrow> Throws err (rt\<lparr>responses := (responses rt)(res := r1)\<rparr>)
                | Returns r2 \<Rightarrow>
                    Returns (rt\<lparr>server := (server rt)\<lparr>emitted :=
                                 emitted (server rt) @ [RequestEvent (host_key req)]\<rparr>,
                               responses := (responses rt)(res := r2),
                               timers := timers rt @ [(clock rt + 5000, res)]\<rparr>))))"

text \<open>
  The callback of the timer:
  \<^verbatim>\<open>res.writeHead(500, { 'Content-Type': 'text/plain' });
  res.end("Error 500: No request handler.")\<close>
\<close>

definition timeout_callback :: "response \<Rightarrow> response outcome" where
  "timeout_callback r =
     (case writeHead r 500 [(''Content-Type'', ''text/plain'')] of
        Throws err r1 \<Rightarrow> Throws err r1
      | Returns r1 \<Rightarrow> Returns (end_response r1 ''Error 500: No request handler.''))"

text \<open>
  Time passes to \<^verbatim>\<open>t\<close>: every timer due by then fires, in order. A callback that
  throws ends the run with an uncaught exception.
\<close>

fun run_timers :: "nat \<Rightarrow> (nat \<times> nat) list \<Rightarrow> (nat \<Rightarrow> response)
    \<Rightarrow> ((nat \<times> nat) list \<times> (nat \<Rightarrow> response)) outcome" where
  "run_timers t [] rs = Returns ([], rs)"
| "run_timers t ((due, res) # ts) rs =
     (if due \<le> t then
        (case timeout_callback (rs res) of
           Throws err r \<Rightarrow> Throws err (ts, rs)
         | Returns r \<Rightarrow> run_timers t ts (rs(res := r)))
      else
        (case run_timers t ts rs of
           Throws err (ts', rs') \<Rightarrow> Throws err ((due, res) # ts', rs')
         | Returns (ts', rs') \<Rightarrow> Returns ((due, res) # ts', rs')))"

definition advance :: "runtime \<Rightarrow> nat \<Rightarrow> runtime outcome" where
  "advance rt t =
     (case run_timers t (timers rt) (responses rt) of
        Throws err (ts, rs) \<Rightarrow> Throws err (rt\<lparr>clock := t, timers := ts, responses := rs\<rparr>)
      | Returns (ts, rs) \<Rightarrow> Returns (rt\<lparr>clock := t, timers := ts, responses := rs\<rparr>))"

section \<open>Configuration and lifecycle\<close>

text \<open>
  \<^verbatim>\<open>get running() { return (this.https && this.https.listening) &&
  (this.http && this.http.listening) }\<close>; both server objects exist from the constructor on.
\<close>

definition running :: "httpns \<Rightarrow> bool" where
  "running h = (https_listening h \<and> http_listening h)"

text \<open>
  The values assigned to \<^verbatim>\<open>port\<close> are modelled as an integer, the number
  \<^verbatim>\<open>NaN\<close> or \<^verbatim>\<open>undefined\<close>; \<^verbatim>\<open>isNaN\<close> converts its argument
  to a number first, and \<^verbatim>\<open>undefined\<close> converts to \<^verbatim>\<open>NaN\<close>.
\<close>

fun isNaN :: "port_value \<Rightarrow> bool" where
  "isNaN (Num n) = False"
| "isNaN NaN = True"
| "isNaN Undef = True"

text \<open>
  \<^verbatim>\<open>set port(val) {
    if(this.running)    throw new Error('Cannot assign port while servers are running.')
    else if(isNaN(val)) throw new Error('Assigned port must be a number.')
    else this[priv].port = val }\<close>
\<close>

definition set_port :: "httpns \<Rightarrow> port_value \<Rightarrow> httpns outcome" where
  "set_port h val =
     (if running h then Throws (Error ''Cannot assign port while servers are running.'') h
      else if isNaN val then Throws (Error ''Assigned port must be a number.'') h
      else Returns (h\<lparr>port := val\<rparr>))"

text \<open>
  The setter of \<^verbatim>\<open>path\<close> throws while running and otherwise stores the value, on
  the platform \<^verbatim>\<open>win32\<close> behind the named-pipe prefix unless the value starts with it.
  The prefix is two backslashes, a question mark, a backslash, \<^verbatim>\<open>pipe\<close> and a
  backslash.
\<close>

definition pipe_prefix :: string where
  "pipe_prefix = [CHR 0x5C, CHR 0x5C, CHR ''?'', CHR 0x5C] @ ''pipe'' @ [CHR 0x5C]"

definition startsWith :: "string \<Rightarrow> string \<Rightarrow> bool" where
  "startsWith s p = (take (length p) s = p)"

definition set_path :: "bool \<Rightarrow> httpns \<Rightarrow> string \<Rightarrow> httpns outcome" where
  "set_path win32 h val =
     (if running h then Throws (Error ''Cannot assign path while server is running.'') h
      else Returns (h\<lparr>path :=
             (if win32 \<and> \<not> startsWith val pipe_prefix then pipe_prefix else []) @ val\<rparr>))"

text \<open>
  The operating system as \<^verbatim>\<open>start\<close> meets it: the files with their creation time,
  the clock and the uptime of the process (all in milliseconds; \<^verbatim>\<open>process.uptime()\<close>
  is this uptime in seconds, with a fraction), whether removing a file fails, and the ports
  another process holds.
\<close>

record os =
  files :: "string \<rightharpoonup> int"
  now :: int
  uptime :: int
  readonly :: bool
  busy_ports :: "port_value list"

datatype sys_call =
    Stat string
  | Unlink string
  | ListenPort port_value
  | ListenPath string
  | ForwardErrors
  | CloseHttp
  | CloseHttps

text \<open>
  \<^verbatim>\<open>const init = new Date; init.setSeconds(init.getSeconds() - process.uptime())\<close>

  \<^verbatim>\<open>setSeconds\<close> keeps the milliseconds of the date and replaces its seconds by the
  integral part of its argument (the argument is converted by the language's
  \<^verbatim>\<open>ToIntegerOrInfinity\<close>, which drops the fraction towards zero). Times are read
  in UTC; the argument is given here in thousandths.
\<close>

definition getSeconds :: "int \<Rightarrow> int" where
  "getSeconds t = (t div 1000) mod 60"

definition ToIntegerOrInfinity :: "int \<Rightarrow> int" where
  "ToIntegerOrInfinity thousandths =
     (if 0 \<le> thousandths then thousandths div 1000 else - ((- thousandths) div 1000))"

definition setSeconds :: "int \<Rightarrow> int \<Rightarrow> int" where
  "setSeconds t thousandths =
     t - getSeconds t * 1000 + ToIntegerOrInfinity thousandths * 1000"

definition init_time :: "os \<Rightarrow> int" where
  "init_time sys = setSeconds (now sys) (getSeconds (now sys) * 1000 - uptime sys)"

text \<open>
  \<^verbatim>\<open>if(stat) { ... if(stat.birthtime.getTime() < init.getTime()) await fs.unlink(this.path)
  .catch(...) }\<close>, where \<^verbatim>\<open>stat\<close> is \<^verbatim>\<open>null\<close> when the file cannot be read.
\<close>

definition stale :: "os \<Rightarrow> string \<Rightarrow> bool" where
  "stale sys p =
     (case files sys p of
        None \<Rightarrow> False
      | Some birthtime \<Rightarrow> birthtime < init_time sys)"

text \<open>
  \<^verbatim>\<open>async start()\<close>: the result is the operating system and the server after the
  listeners have settled, and the calls made in order. A listener that is already bound
  throws on \<^verbatim>\<open>listen\<close>. Binding the relay path fails when a file is there; a failed
  bind arrives as an \<^verbatim>\<open>error\<close> event of the listener, which the handlers installed
  last forward to \<^verbatim>\<open>this.emit('error', err)\<close>. The model covers a port the
  listener accepts (a number from 0 to 65535) and logs the forwarded events; what the emitter
  does with them when nothing listens happens in the handler, after the call.
\<close>

definition start :: "os \<Rightarrow> httpns \<Rightarrow> (os \<times> httpns \<times> sys_call list) outcome" where
  "start sys h =
     (let p = path h;
          cleanup = (if stale sys p then [Unlink p] else []);
          fs1 = (if stale sys p \<and> \<not> readonly sys then (files sys)(p := None) else files sys)
      in if http_listening h then
           Throws (Error ''Listen method has been called more than once without closing.'')
             (sys\<lparr>files := fs1\<rparr>, h, Stat p # cleanup @ [ListenPort (port h)])
         else
           let http_ok = (port h \<notin> set (busy_ports sys));
               h1 = h\<lparr>http_listening := http_ok\<rparr>
           in if https_listening h then
                Throws (Error ''Listen method has been called more than once without closing.'')
                  (sys\<lparr>files := fs1\<rparr>, h1,
                   Stat p # cleanup @ [ListenPort (port h), ListenPath p])
              else
                let https_ok = (fs1 p = None);
                    fs2 = (if https_ok then fs1(p \<mapsto> now sys) else fs1);
                    errs = (if http_ok then [] else [ErrorEvent ''listen EADDRINUSE: port''])
                         @ (if https_ok then [] else [ErrorEvent ''listen EADDRINUSE: path''])
                in Returns (sys\<lparr>files := fs2\<rparr>,
                     h1\<lparr>https_listening := https_ok, emitted := emitted h @ errs\<rparr>,
                     Stat p # cleanup @ [ListenPort (port h), ListenPath p, ForwardErrors]))"

text \<open>
  \<^verbatim>\<open>stop() { this.http.close(); this.https.close() }\<close>. The model gives the
  flags and the calls; it has no file system, so what closing the listener does to the file
  of the relay path is not part of it.
\<close>

definition stop :: "httpns \<Rightarrow> httpns \<times> sys_call list" where
  "stop h = (h\<lparr>http_listening := False, https_listening := False\<rparr>, [CloseHttp, CloseHttps])"

section \<open>The front-end multiplexer\<close>

text \<open>
  Strings are lists of 8-bit characters: the first chunk of a connection is taken as ASCII
  text, on which \<^verbatim>\<open>data.toString()\<close> changes nothing. Bytes beyond ASCII,
  which the program decodes as UTF-8 (and whose white space \<^verbatim>\<open>trim\<close> removes
  as well), are outside the model.
\<close>

definition CRLF :: string where
  "CRLF = [CHR 0x0D, CHR 0x0A]"

text \<open>The entries of \<^verbatim>\<open>http.STATUS_CODES\<close> this program reads.\<close>

definition STATUS_CODES :: "nat \<Rightarrow> string" where
  "STATUS_CODES code =
     (if code = 308 then ''Permanent Redirect''
      else if code = 400 then ''Bad Request''
      else if code = 500 then ''Internal Server Error''
      else ''undefined'')"

definition digit :: "nat \<Rightarrow> char" where
  "digit d = ''0123456789'' ! d"

fun decimal :: "nat \<Rightarrow> string" where
  "decimal n = (if n < 10 then [digit n] else decimal (n div 10) @ [digit (n mod 10)])"

fun join :: "string \<Rightarrow> string list \<Rightarrow> string" where
  "join sep [] = []"
| "join sep [x] = x"
| "join sep (x # y # ys) = x @ sep @ join sep (y # ys)"

text \<open>
  \<^verbatim>\<open>function headers(code, data = {}) {
    const header = []
    header.push(`HTTP/1.1 ${code} ${STATUS_CODES[code]}`)
    Object.keys(data).forEach(key => header.push(`${key}: ${data[key]}`))
    return header.join('\r\n') + "\r\n\r\n" }\<close>
\<close>

definition headers :: "nat \<Rightarrow> (string \<times> string) list \<Rightarrow> string" where
  "headers code data =
     join CRLF ((''HTTP/1.1 '' @ decimal code @ '' '' @ STATUS_CODES code)
                # map (\<lambda>(key, v). key @ '': '' @ v) data)
     @ CRLF @ CRLF"

text \<open>The string methods the parser uses, on ASCII text.\<close>

definition whitespace :: "char \<Rightarrow> bool" where
  "whitespace c = (c \<in> set [CHR 0x09, CHR 0x0A, CHR 0x0B, CHR 0x0C, CHR 0x0D, CHR 0x20])"

definition trim :: "string \<Rightarrow> string" where
  "trim s = rev (dropWhile whitespace (rev (dropWhile whitespace s)))"

fun split_from :: "string \<Rightarrow> string \<Rightarrow> string list" where
  "split_from piece [] = [rev piece]"
| "split_from piece [c] = [rev (c # piece)]"
| "split_from piece (c # d # cs) =
     (if c = CHR 0x0D \<and> d = CHR 0x0A then rev piece # split_from [] cs
      else split_from (c # piece) (d # cs))"

definition split_CRLF :: "string \<Rightarrow> string list" where
  "split_CRLF s = split_from [] s"

fun indexOf :: "string \<Rightarrow> char \<Rightarrow> int" where
  "indexOf [] c = - 1"
| "indexOf (x # xs) c =
     (if x = c then 0 else (let k = indexOf xs c in if k < 0 then - 1 else k + 1))"

fun lastIndexOf :: "string \<Rightarrow> char \<Rightarrow> int" where
  "lastIndexOf [] c = - 1"
| "lastIndexOf (x # xs) c =
     (let k = lastIndexOf xs c in if 0 \<le> k then k + 1 else if x = c then 0 else - 1)"

text \<open>
  \<^verbatim>\<open>substring\<close> clamps both indices to the string and swaps them when the first
  is the larger.
\<close>

definition clamp_index :: "string \<Rightarrow> int \<Rightarrow> nat" where
  "clamp_index s k = (if k < 0 then 0 else min (nat k) (length s))"

definition substring :: "string \<Rightarrow> int \<Rightarrow> int \<Rightarrow> string" where
  "substring s a b =
     (let i = clamp_index s a; j = clamp_index s b
      in take (max i j - min i j) (drop (min i j) s))"

definition substring_from :: "string \<Rightarrow> int \<Rightarrow> string" where
  "substring_from s a = drop (clamp_index s a) s"

text \<open>
  What the handler of the first chunk does, as the calls it makes in order on the accepted
  socket and on the connection to the relay channel. \<^verbatim>\<open>OnceEnd a ev b\<close> stands for
  \<^verbatim>\<open>a.once(ev, () => b.end())\<close>.
\<close>

datatype endpoint = Socket | Conn

datatype stream_event = OnError | OnEnd

datatype socket_call =
    CreateConnection string
  | Pipe endpoint endpoint
  | Write endpoint string
  | End endpoint "string option"
  | OnceEnd endpoint stream_event endpoint

definition bad_request :: "socket_call list" where
  "bad_request =
     [Write Socket (headers 400 [(''Content-Type'', ''text/plain''), (''Connection'', ''closed'')]),
      End Socket (Some ''Error 400: Unknown domain; Domain incorrectly pointing to this server.'')]"

definition redirect :: "string \<Rightarrow> string \<Rightarrow> socket_call list" where
  "redirect domain url =
     [Write Socket (headers 308 [(''Content-Type'', ''text/plain''),
                                 (''Location'', ''https://'' @ domain @ url),
                                 (''Connection'', ''closed'')]),
      End Socket (Some ''Response 308: Redirecting to secured request.'')]"

definition plaintext :: "httpns \<Rightarrow> string \<Rightarrow> socket_call list" where
  "plaintext h data =
     (case split_CRLF (trim data) of
        line0 # line1 # rest \<Rightarrow>
          (let domain = substring_from line1 (indexOf line1 CHR '' '' + 1);
               url = substring line0 (indexOf line0 CHR '' '' + 1) (lastIndexOf line0 CHR '' '')
           in if has h domain then redirect domain url else bad_request)
      | _ \<Rightarrow> bad_request)"

definition relay :: "httpns \<Rightarrow> string \<Rightarrow> socket_call list" where
  "relay h data =
     [CreateConnection (path h), Pipe Socket Conn, Pipe Conn Socket, Write Conn data,
      OnceEnd Conn OnError Conn, OnceEnd Conn OnEnd Socket,
      OnceEnd Socket OnError Socket, OnceEnd Socket OnEnd Conn]"

text \<open>
  \<^verbatim>\<open>socket.once('data', data => { if(data[0] === 22) { ... } else { ... } })\<close>
\<close>

definition socketForwarder :: "httpns \<Rightarrow> string \<Rightarrow> socket_call list" where
  "socketForwarder h data =
     (case data of
        [] \<Rightarrow> plaintext h data
      | b # bs \<Rightarrow> if b = CHR 0x16 then relay h data else plaintext h data)"

text \<open>
  What the installed handlers do later. A pipe from \<^verbatim>\<open>a\<close> to \<^verbatim>\<open>b\<close> writes
  every chunk read from \<^verbatim>\<open>a\<close> to \<^verbatim>\<open>b\<close> unchanged and ends \<^verbatim>\<open>b\<close>
  when \<^verbatim>\<open>a\<close> ends; a \<^verbatim>\<open>once\<close> handler runs on the event it names.
\<close>

fun on_data :: "socket_call list \<Rightarrow> endpoint \<Rightarrow> string \<Rightarrow> socket_call list" where
  "on_data [] a chunk = []"
| "on_data (Pipe src dst # cs) a chunk =
     (if src = a then Write dst chunk # on_data cs a chunk else on_data cs a chunk)"
| "on_data (c # cs) a chunk = on_data cs a chunk"

fun on_event :: "socket_call list \<Rightarrow> endpoint \<Rightarrow> stream_event \<Rightarrow> socket_call list" where
  "on_event [] a ev = []"
| "on_event (Pipe src dst # cs) a ev =
     (if src = a \<and> ev = OnEnd then End dst None # on_event cs a ev else on_event cs a ev)"
| "on_event (OnceEnd src ev' dst # cs) a ev =
     (if src = a \<and> ev' = ev then End dst None # on_event cs a ev else on_event cs a ev)"
| "on_event (c # cs) a ev = on_event cs a ev"

section \<open>The certificate loader\<close>

text \<open>
  \<^verbatim>\<open>async function register(httpns, opts)\<close>. The file system and
  \<^verbatim>\<open>tls.createSecureContext\<close> are parameters: \<^verbatim>\<open>readFile\<close> gives the
  bytes of a file, or nothing when the read is rejected (the rejection is caught on the spot
  and becomes \<^verbatim>\<open>null\<close>); \<^verbatim>\<open>createSecureContext\<close> returns a context or
  throws. The function has no handler around the construction, so what the construction throws
  leaves the function. The assignment of the context needs the entry of the domain: without
  one the property read gives \<^verbatim>\<open>undefined\<close> and the assignment throws, and with
  an inherited value it does not reach the registry.
\<close>

record opts =
  opt_domain :: string
  opt_key :: string
  opt_cert :: string

definition register ::
  "(string \<Rightarrow> string option) \<Rightarrow> (string \<Rightarrow> string \<Rightarrow> js_error + nat)
     \<Rightarrow> httpns \<Rightarrow> opts \<Rightarrow> httpns outcome" where
  "register readFile createSecureContext h opt =
     (let failed = notify h (ErrorEvent (''Could not create secureContext for ''
                                          @ opt_domain opt @ ''.''))
      in case readFile (opt_key opt) of
           None \<Rightarrow> failed
         | Some key \<Rightarrow>
             (case readFile (opt_cert opt) of
                None \<Rightarrow> failed
              | Some cert \<Rightarrow>
                  (case createSecureContext key cert of
                     Inl err \<Rightarrow> Throws err h
                   | Inr c \<Rightarrow>
                       if has h (opt_domain opt)
                       then notify (set_context h (opt_domain opt) (Context c))
                              (RegistryEvent (opt_domain opt))
                       else Throws TypeError h)))"

section \<open>Scenarios\<close>

text \<open>
  The server as the constructor leaves it before \<^verbatim>\<open>start\<close> has bound anything,
  with the default port and path and nothing registered.
\<close>

definition idle_server :: httpns where
  "idle_server =
     \<lparr>port = Num 6110, path = ''.https-sock'', http_listening = False,
      https_listening = False, domains = Map.empty, listeners = [], emitted = []\<rparr>"

text \<open>
  A registry with a loaded domain, an alias of it, a domain whose certificate has not been
  loaded and an alias of a domain that was never registered.
\<close>

definition mixed_server :: httpns where
  "mixed_server =
     idle_server\<lparr>domains :=
       [''main.example'' \<mapsto> \<lparr>entry_emitter = [], entry_context = Context 1\<rparr>,
        ''alias.example'' \<mapsto>
           \<lparr>entry_emitter = [], entry_context = AliasString ''main.example''\<rparr>,
        ''pending.example'' \<mapsto> \<lparr>entry_emitter = [], entry_context = Undefined\<rparr>,
        ''dangling.example'' \<mapsto>
           \<lparr>entry_emitter = [], entry_context = AliasString ''gone.example''\<rparr>]\<rparr>"

text \<open>An alias of an alias of a loaded domain.\<close>

definition chain_server :: httpns where
  "chain_server =
     idle_server\<lparr>domains :=
       [''a.example'' \<mapsto> \<lparr>entry_emitter = [], entry_context = AliasString ''b.example''\<rparr>,
        ''b.example'' \<mapsto> \<lparr>entry_emitter = [], entry_context = AliasString ''c.example''\<rparr>,
        ''c.example'' \<mapsto> \<lparr>entry_emitter = [], entry_context = Context 7\<rparr>]\<rparr>"

text \<open>A server whose two listeners are bound.\<close>

definition running_server :: httpns where
  "running_server = idle_server\<lparr>http_listening := True, https_listening := True\<rparr>"

text \<open>
  Dispatch scenarios: an event loop at time 0 with untouched response handles; a domain with
  a subscriber for \<^verbatim>\<open>/x\<close> that answers at once with
  \<^verbatim>\<open>res.writeHead(200); res.end('ok')\<close>; the same domain without subscribers; a
  request for \<^verbatim>\<open>/x\<close> on that domain and one whose Host header names another domain.
\<close>

definition fresh_response :: response where
  "fresh_response = \<lparr>headersSent = False, finished = False, sent = []\<rparr>"

definition boot :: "httpns \<Rightarrow> runtime" where
  "boot h = \<lparr>server = h, clock = 0, timers = [], responses = (\<lambda>res. fresh_response)\<rparr>"

definition answer_ok :: "response \<Rightarrow> response" where
  "answer_ok r =
     (case writeHead r 200 [] of
        Throws err r1 \<Rightarrow> r1
      | Returns r1 \<Rightarrow> end_response r1 ''ok'')"

definition answering_server :: httpns where
  "answering_server =
     idle_server\<lparr>domains :=
       [''a.example'' \<mapsto>
          \<lparr>entry_emitter = [(''/x'', answer_ok)], entry_context = Context 1\<rparr>]\<rparr>"

definition silent_server :: httpns where
  "silent_server =
     idle_server\<lparr>domains :=
       [''a.example'' \<mapsto> \<lparr>entry_emitter = [], entry_context = Context 1\<rparr>]\<rparr>"

definition get_x :: request where
  "get_x = \<lparr>headers_host = Some ''a.example'', req_url = ''/x''\<rparr>"

definition get_other :: request where
  "get_other = \<lparr>headers_host = Some ''other.example'', req_url = ''/x''\<rparr>"

text \<open>The event loop right after the answered request has been dispatched.\<close>

definition answered :: runtime where
  "answered =
     \<lparr>server = answering_server\<lparr>emitted := [RequestEvent ''a.example'']\<rparr>,
      clock = 0,
      timers = [(5000, 0)],
      responses = (\<lambda>res. fresh_response)
        (0 := \<lparr>headersSent = True, finished = True,
                sent = [WriteHead 200 [], EndWith ''ok'']\<rparr>)\<rparr>"

text \<open>
  A relay file created 300 milliseconds before the process started, met by
  \<^verbatim>\<open>start\<close> 2.5 seconds into the process.
\<close>

definition crash_loop :: os where
  "crash_loop =
     \<lparr>files = [''.https-sock'' \<mapsto> 7200], now = 10000, uptime = 2500,
      readonly = False, busy_ports = []\<rparr>"

text \<open>First chunks: a TLS record marker followed by arbitrary bytes, and a plaintext request
  whose Host value is the name of a property every object inherits.\<close>

definition tls_hello :: string where
  "tls_hello = CHR 0x16 # ''garbage''"

definition probe :: string where
  "probe = ''GET /x HTTP/1.1'' @ CRLF @ ''Host: constructor'' @ CRLF @ CRLF"

text \<open>
  Loader scenario: a domain registered with key and certificate paths, a listener for
  \<^verbatim>\<open>error\<close> on the server object, files that can be read but hold no certificate,
  and a context construction that throws on them.
\<close>

definition pending_server :: httpns where
  "pending_server =
     idle_server\<lparr>domains :=
                    [''a.example'' \<mapsto> \<lparr>entry_emitter = [], entry_context = Undefined\<rparr>],
                  listeners := [(''error'', \<lambda>r. r)]\<rparr>"

definition readable :: "string \<Rightarrow> string option" where
  "readable file = Some ''not a certificate''"

definition reject_malformed :: "string \<Rightarrow> string \<Rightarrow> js_error + nat" where
  "reject_malformed key cert = Inl (Error ''PEM routines: no start line'')"

definition a_example_files :: opts where
  "a_example_files = \<lparr>opt_domain = ''a.example'', opt_key = ''a.key'', opt_cert = ''a.crt''\<rparr>"

text \<open>The idle server with a listener for \<^verbatim>\<open>error\<close> on it.\<close>

definition watched_server :: httpns where
  "watched_server = idle_server\<lparr>listeners := [(''error'', \<lambda>r. r)]\<rparr>"

text \<open>The default answer of the dispatcher, as the response handle logs it.\<close>

definition default_500 :: "res_call list" where
  "default_500 = [WriteHead 500 [(''Content-Type'', ''text/plain'')],
                  EndWith ''Error 500: No request handler.'']"

text \<open>Plaintext first chunks for a registered and for an unknown domain.\<close>

definition get_known :: string where
  "get_known = ''GET /x HTTP/1.1'' @ CRLF @ ''Host: a.example'' @ CRLF @ CRLF"

definition get_unknown :: string where
  "get_unknown = ''GET /x HTTP/1.1'' @ CRLF @ ''Host: unknown.example'' @ CRLF @ CRLF"

text \<open>A file system on which every read is rejected.\<close>

definition unreadable :: "string \<Rightarrow> string option" where
  "unreadable file = None"

text \<open>
  Three starts 2.5 seconds into the process: with a relay file left by an earlier process,
  with none, and with one that a live instance created a second ago while it also holds
  the port.
\<close>

definition stale_boot :: os where
  "stale_boot =
     \<lparr>files = [''.https-sock'' \<mapsto> 1000], now = 10000, uptime = 2500,
      readonly = False, busy_ports = []\<rparr>"

definition clean_boot :: os where
  "clean_boot = \<lparr>files = Map.empty, now = 10000, uptime = 2500, readonly = False, busy_ports = []\<rparr>"

definition second_instance :: os where
  "second_instance =
     \<lparr>files = [''.https-sock'' \<mapsto> 9000], now = 10000, uptime = 2500,
      readonly = False, busy_ports = [Num 6110]\<rparr>"

section \<open>The SNI resolver: properties\<close>

text \<open>
  C3. \<^verbatim>\<open>resolve(domain)\<close> returns the stored context for every registered domain
  whose context is loaded. It fails with the error \<^verbatim>\<open>Unsupported domain\<close> for
  every domain without an entry, for a registered domain whose context is not loaded yet,
  and for an alias whose target has no entry.
\<close>

theorem resolve_registered_or_unsupported:
  "(domains h d = Some e \<and> entry_context e = Context c \<longrightarrow> resolve h d = CbOk (Context c)) \<and>
   (domains h d = None \<longrightarrow> resolve h d = CbError (''Unsupported domain '' @ d)) \<and>
   (domains h d = Some e \<and> entry_context e = Undefined \<longrightarrow>
      resolve h d = CbError (''Unsupported domain '' @ d)) \<and>
   (domains h d = Some e \<and> entry_context e = AliasString t \<and> domains h t = None \<longrightarrow>
      resolve h d = CbError (''Unsupported domain '' @ d))"
  by (auto simp: resolve_def SNICallbacks_def as_context_def set_context_def Let_def)

theorem resolve_registered_or_unsupported_witness:
  "resolve mixed_server ''main.example'' = CbOk (Context 1) \<and>
   resolve mixed_server ''nowhere.example'' = CbError ''Unsupported domain nowhere.example'' \<and>
   resolve mixed_server ''pending.example'' = CbError ''Unsupported domain pending.example'' \<and>
   resolve mixed_server ''dangling.example'' = CbError ''Unsupported domain dangling.example''"
  using resolve_registered_or_unsupported
          [of mixed_server "''main.example''" "\<lparr>entry_emitter = [], entry_context = Context 1\<rparr>" 1]
        resolve_registered_or_unsupported [of mixed_server "''nowhere.example''"]
        resolve_registered_or_unsupported
          [of mixed_server "''pending.example''" "\<lparr>entry_emitter = [], entry_context = Undefined\<rparr>"]
        resolve_registered_or_unsupported
          [of mixed_server "''dangling.example''"
              "\<lparr>entry_emitter = [], entry_context = AliasString ''gone.example''\<rparr>" _
              "''gone.example''"]
  by (simp add: mixed_server_def idle_server_def)

text \<open>
  C2. When \<^verbatim>\<open>A\<close> is registered as an alias of \<^verbatim>\<open>B\<close> and \<^verbatim>\<open>B\<close>
  with a loaded context \<^verbatim>\<open>C\<close>, then \<^verbatim>\<open>resolve(A)\<close> returns \<^verbatim>\<open>C\<close>;
  a second \<^verbatim>\<open>resolve(A)\<close> returns \<^verbatim>\<open>C\<close> again and is decided by the entry
  of \<^verbatim>\<open>A\<close> alone (any registry that agrees on this entry gives the same answer and is
  left as it is, so \<^verbatim>\<open>B\<close> is not consulted); in particular it still returns
  \<^verbatim>\<open>C\<close> after the entry of \<^verbatim>\<open>B\<close> has been overwritten.
\<close>

theorem alias_resolution_memoized:
  assumes aliased: "domains h A = Some eA" "entry_context eA = AliasString B"
    and target: "domains h B = Some eB" "entry_context eB = Context C"
  shows "resolve h A = CbOk (Context C) \<and>
         resolve (after_resolve h A) A = CbOk (Context C) \<and>
         (\<forall>h'. domains h' A = domains (after_resolve h A) A \<longrightarrow>
                SNICallbacks h' A = (h', CbOk (Context C))) \<and>
         (\<forall>e'. resolve ((after_resolve h A)\<lparr>domains := (domains (after_resolve h A))(B \<mapsto> e')\<rparr>) A
                = CbOk (Context C))"
proof -
  have distinct: "A \<noteq> B"
    using aliased target by auto
  have memo: "domains (after_resolve h A) A = Some (eA\<lparr>entry_context := Context C\<rparr>)"
    using aliased target
    by (simp add: after_resolve_def SNICallbacks_def as_context_def set_context_def Let_def)
  have settled: "SNICallbacks h' A = (h', CbOk (Context C))"
    if "domains h' A = Some (eA\<lparr>entry_context := Context C\<rparr>)" for h'
    using that by (simp add: SNICallbacks_def as_context_def Let_def)
  have first: "resolve h A = CbOk (Context C)"
    using aliased target
    by (simp add: resolve_def SNICallbacks_def as_context_def set_context_def Let_def)
  have second: "resolve (after_resolve h A) A = CbOk (Context C)"
    using settled [OF memo] by (simp add: resolve_def)
  have overwritten:
    "resolve ((after_resolve h A)\<lparr>domains := (domains (after_resolve h A))(B \<mapsto> e')\<rparr>) A
       = CbOk (Context C)" for e'
    using settled [of "(after_resolve h A)\<lparr>domains := (domains (after_resolve h A))(B \<mapsto> e')\<rparr>"]
      memo distinct
    by (simp add: resolve_def)
  show ?thesis
    using first second overwritten settled memo by simp
qed

theorem alias_resolution_memoized_witness:
  "resolve mixed_server ''alias.example'' = CbOk (Context 1) \<and>
   resolve (after_resolve mixed_server ''alias.example'') ''alias.example'' = CbOk (Context 1) \<and>
   resolve ((after_resolve mixed_server ''alias.example'')\<lparr>domains :=
              (domains (after_resolve mixed_server ''alias.example''))
                (''main.example'' \<mapsto> \<lparr>entry_emitter = [], entry_context = Context 2\<rparr>)\<rparr>)
     ''alias.example'' = CbOk (Context 1)"
  using alias_resolution_memoized
          [of mixed_server "''alias.example''"
              "\<lparr>entry_emitter = [], entry_context = AliasString ''main.example''\<rparr>"
              "''main.example''" "\<lparr>entry_emitter = [], entry_context = Context 1\<rparr>" 1]
  by (simp add: mixed_server_def idle_server_def)

text \<open>
  C4. For an alias of an alias the resolver does not fail: it copies the inner alias string
  into the entry and hands this string to the callback as the context, without an error.
  For \<^verbatim>\<open>a.example\<close>, an alias of \<^verbatim>\<open>b.example\<close>, itself an alias of
  \<^verbatim>\<open>c.example\<close>, the callback receives the string \<^verbatim>\<open>c.example\<close>.
\<close>

theorem alias_chain_yields_string:
  "SNICallbacks chain_server ''a.example'' =
     (set_context chain_server ''a.example'' (AliasString ''c.example''),
      CbOk (AliasString ''c.example'')) \<and>
   entry_context (the (domains (after_resolve chain_server ''a.example'') ''a.example''))
     = AliasString ''c.example''"
  by (simp add: SNICallbacks_def after_resolve_def as_context_def set_context_def
      chain_server_def idle_server_def Let_def)

section \<open>The request dispatcher: properties\<close>

text \<open>
  C10. A decoded request whose Host header names no registered domain makes the lookup of
  the event channel come back empty, and the dispatch throws a \<^verbatim>\<open>TypeError\<close> at
  its first statement: the state is what it was, so no \<^verbatim>\<open>request\<close> event has been
  emitted and no timer has been set for the request.
\<close>

theorem unregistered_host_throws:
  assumes "domains (server rt) (host_key req) = None"
  shows "as_emitter (server rt) (host_key req) = None \<and>
         requestForwarder rt req res = Throws TypeError rt"
  using assms by (simp add: requestForwarder_def as_emitter_def)

theorem unregistered_host_throws_witness:
  "as_emitter (server (boot silent_server)) (host_key get_other) = None \<and>
   requestForwarder (boot silent_server) get_other 0 = Throws TypeError (boot silent_server) \<and>
   timers (boot silent_server) = [] \<and> emitted (server (boot silent_server)) = []"
  using unregistered_host_throws [of "boot silent_server" get_other 0]
  by (simp add: boot_def silent_server_def idle_server_def get_other_def host_key_def)

text \<open>
  C1. A write by a subscriber does not cancel the timer. A request that its subscriber
  answers during the dispatch leaves the response finished and the timer of 5000 time units
  pending; when the time has passed the callback runs all the same, calls
  \<^verbatim>\<open>writeHead\<close> on the answered response and throws
  \<^verbatim>\<open>ERR_HTTP_HEADERS_SENT\<close>.
\<close>

theorem answered_request_timer_fires:
  "requestForwarder (boot answering_server) get_x 0 = Returns answered \<and>
   finished (responses answered 0) \<and>
   timers answered = [(5000, 0)] \<and>
   advance answered 5000 = Throws ERR_HTTP_HEADERS_SENT (answered\<lparr>clock := 5000, timers := []\<rparr>)"
  by (simp add: requestForwarder_def boot_def answering_server_def idle_server_def
      get_x_def as_emitter_def host_key_def emit_def has_listener_def answer_ok_def writeHead_def
      end_response_def fresh_response_def advance_def timeout_callback_def answered_def)

text \<open>
  Whatever the subscribers do with the response, a dispatch that returns has added its timer
  to the pending ones and removed none.
\<close>

lemma dispatch_leaves_timer_pending:
  assumes "requestForwarder rt req res = Returns rt'"
  shows "timers rt' = timers rt @ [(clock rt + 5000, res)]"
  using assms
  by (auto simp: requestForwarder_def split: option.splits outcome.splits)

text \<open>
  The timeout alone. A request for a registered domain that no subscriber touches gets a timer of 5000
  time units at dispatch; before that time nothing happens to it, and at that time the
  callback writes the default 500 response once, ends the response and leaves no timer.
\<close>

theorem unanswered_request_times_out:
  assumes registered: "as_emitter (server rt) (host_key req) = Some em"
    and named: "req_url req \<noteq> ''error''"
    and untouched: "run_listeners (listeners (server rt)) ''request''
                      (run_listeners em (req_url req) (responses rt res)) = fresh_response"
    and idle: "timers rt = []"
    and dispatched: "rt1 = rt\<lparr>server := (server rt)\<lparr>emitted :=
                                 emitted (server rt) @ [RequestEvent (host_key req)]\<rparr>,
                             responses := (responses rt)(res := fresh_response),
                             timers := [(clock rt + 5000, res)]\<rparr>"
  shows "requestForwarder rt req res = Returns rt1 \<and>
         (t < clock rt + 5000 \<longrightarrow> advance rt1 t = Returns (rt1\<lparr>clock := t\<rparr>)) \<and>
         advance rt1 (clock rt + 5000) =
           Returns (rt1\<lparr>clock := clock rt + 5000, timers := [],
                       responses := (responses rt1)
                         (res := \<lparr>headersSent = True, finished = True, sent = default_500\<rparr>)\<rparr>)"
proof -
  have sent_on: "requestForwarder rt req res = Returns rt1"
    using registered named untouched idle dispatched
    by (simp add: requestForwarder_def emit_def)
  have pending: "advance rt1 t = Returns (rt1\<lparr>clock := t\<rparr>)" if "t < clock rt + 5000"
    using that dispatched by (simp add: advance_def)
  have fired: "timeout_callback fresh_response =
      Returns \<lparr>headersSent = True, finished = True, sent = default_500\<rparr>"
    by (simp add: timeout_callback_def writeHead_def end_response_def fresh_response_def
        default_500_def)
  have due: "advance rt1 (clock rt + 5000) =
           Returns (rt1\<lparr>clock := clock rt + 5000, timers := [],
                       responses := (responses rt1)
                         (res := \<lparr>headersSent = True, finished = True, sent = default_500\<rparr>)\<rparr>)"
    using dispatched fired by (simp add: advance_def)
  show ?thesis
    using sent_on pending due by simp
qed

theorem unanswered_request_times_out_witness:
  "requestForwarder (boot silent_server) get_x 0 =
     Returns ((boot silent_server)\<lparr>
        server := silent_server\<lparr>emitted := [RequestEvent ''a.example'']\<rparr>,
        timers := [(5000, 0)]\<rparr>) \<and>
   advance ((boot silent_server)\<lparr>
        server := silent_server\<lparr>emitted := [RequestEvent ''a.example'']\<rparr>,
        timers := [(5000, 0)]\<rparr>) 4999 =
     Returns ((boot silent_server)\<lparr>
        server := silent_server\<lparr>emitted := [RequestEvent ''a.example'']\<rparr>,
        timers := [(5000, 0)], clock := 4999\<rparr>) \<and>
   advance ((boot silent_server)\<lparr>
        server := silent_server\<lparr>emitted := [RequestEvent ''a.example'']\<rparr>,
        timers := [(5000, 0)]\<rparr>) 5000 =
     Returns ((boot silent_server)\<lparr>
        server := silent_server\<lparr>emitted := [RequestEvent ''a.example'']\<rparr>,
        clock := 5000,
        responses := (\<lambda>res. fresh_response)
          (0 := \<lparr>headersSent = True, finished = True, sent = default_500\<rparr>)\<rparr>)"
proof -
  have same: "(\<lambda>res. fresh_response)(0 := fresh_response) = (\<lambda>res::nat. fresh_response)"
    by (simp add: fun_eq_iff)
  show ?thesis
    using unanswered_request_times_out [of "boot silent_server" get_x "[]" 0
          "(boot silent_server)\<lparr>
             server := silent_server\<lparr>emitted := [RequestEvent ''a.example'']\<rparr>,
             timers := [(5000, 0)]\<rparr>" 4999]
    by (simp add: boot_def silent_server_def idle_server_def get_x_def host_key_def
        as_emitter_def same)
qed

section \<open>Configuration and lifecycle: properties\<close>

text \<open>
  C8, as the code has it. While the server is running, assigning \<^verbatim>\<open>port\<close> or
  \<^verbatim>\<open>path\<close> throws and leaves the configuration as it was. While it is not running,
  assigning \<^verbatim>\<open>path\<close> succeeds, and assigning \<^verbatim>\<open>port\<close> succeeds exactly
  for a value that \<^verbatim>\<open>isNaN\<close> accepts as a number; any other value is refused with
  \<^verbatim>\<open>Assigned port must be a number.\<close> and the configuration stays as it was.
  After \<^verbatim>\<open>stop\<close> the server is not running.
\<close>

theorem config_assignment:
  "(running h \<longrightarrow>
      set_port h v = Throws (Error ''Cannot assign port while servers are running.'') h \<and>
      set_path win32 h p = Throws (Error ''Cannot assign path while server is running.'') h) \<and>
   (\<not> running h \<longrightarrow>
      set_path win32 h p =
        Returns (h\<lparr>path :=
          (if win32 \<and> \<not> startsWith p pipe_prefix then pipe_prefix else []) @ p\<rparr>) \<and>
      (\<not> isNaN v \<longrightarrow> set_port h v = Returns (h\<lparr>port := v\<rparr>)) \<and>
      (isNaN v \<longrightarrow> set_port h v = Throws (Error ''Assigned port must be a number.'') h)) \<and>
   \<not> running (fst (stop h))"
  by (simp add: set_port_def set_path_def stop_def running_def)

theorem config_assignment_witness:
  "set_port running_server (Num 8080) =
     Throws (Error ''Cannot assign port while servers are running.'') running_server \<and>
   set_path False running_server ''sock'' =
     Throws (Error ''Cannot assign path while server is running.'') running_server \<and>
   set_path False idle_server ''sock'' = Returns (idle_server\<lparr>path := ''sock''\<rparr>) \<and>
   set_port idle_server (Num 8080) = Returns (idle_server\<lparr>port := Num 8080\<rparr>) \<and>
   set_port (fst (stop running_server)) (Num 8080) =
     Returns ((fst (stop running_server))\<lparr>port := Num 8080\<rparr>) \<and>
   set_port idle_server Undef = Throws (Error ''Assigned port must be a number.'') idle_server"
  using config_assignment [of running_server "Num 8080" False "''sock''"]
        config_assignment [of idle_server "Num 8080" False "''sock''"]
        config_assignment [of "fst (stop running_server)" "Num 8080" False "''sock''"]
        config_assignment [of idle_server Undef False "''sock''"]
  by (simp add: running_def running_server_def idle_server_def)

text \<open>
  Against C8 as stated: on a server that is not running, assigning the number
  \<^verbatim>\<open>NaN\<close> to \<^verbatim>\<open>port\<close> fails.
\<close>

theorem nan_port_rejected_when_stopped:
  "\<not> running idle_server \<and>
   set_port idle_server NaN = Throws (Error ''Assigned port must be a number.'') idle_server"
  by (simp add: set_port_def running_def idle_server_def)

text \<open>
  C9. \<^verbatim>\<open>start\<close> compares the creation time of the relay file with the current time
  whose seconds were replaced by the integral part of seconds minus uptime, which is not the
  time the process started. With the clock at 10000, an uptime of 2500 and a file created at
  7200, the file is older than the process (started at 7500), the time computed is 7000, no
  \<^verbatim>\<open>unlink\<close> is called, and the bind of the relay path fails on the file.
\<close>

theorem start_keeps_file_older_than_process:
  "files crash_loop (path idle_server) = Some 7200 \<and>
   7200 < now crash_loop - uptime crash_loop \<and>
   init_time crash_loop = 7000 \<and>
   start crash_loop idle_server =
     Returns (crash_loop,
       idle_server\<lparr>http_listening := True, https_listening := False,
                     emitted := [ErrorEvent ''listen EADDRINUSE: path'']\<rparr>,
       [Stat ''.https-sock'', ListenPort (Num 6110), ListenPath ''.https-sock'', ForwardErrors])"
  by (simp add: start_def crash_loop_def idle_server_def stale_def init_time_def setSeconds_def
      getSeconds_def ToIntegerOrInfinity_def Let_def)

text \<open>
  Cleanup and binding by the computed time. On a server whose listeners are not bound,
  whose port is a number from 0 to 65535 and which has a listener for
  \<^verbatim>\<open>error\<close>, \<^verbatim>\<open>start\<close> calls \<^verbatim>\<open>unlink\<close> on a relay
  file that is older than the time it computed before it binds; without a file it binds
  directly; with a file that is not older it binds all the same, the bind of the relay path
  fails and the failure is emitted as an \<^verbatim>\<open>error\<close> event.
  \<^verbatim>\<open>stop\<close> itself makes the two close calls and no other.
\<close>

theorem start_cleanup_before_bind:
  assumes unbound: "\<not> http_listening h" "\<not> https_listening h"
    and valid_port: "port h = Num n" "0 \<le> n" "n \<le> 65535"
    and watched: "has_listener (listeners h) ''error''"
  shows "(stale sys (path h) \<longrightarrow>
           (case start sys h of
              Throws err x \<Rightarrow> False
            | Returns (sys', h', calls) \<Rightarrow>
                calls = [Stat (path h), Unlink (path h), ListenPort (port h),
                         ListenPath (path h), ForwardErrors] \<and>
                (\<not> readonly sys \<longrightarrow> https_listening h'))) \<and>
         (files sys (path h) = None \<longrightarrow>
           (case start sys h of
              Throws err x \<Rightarrow> False
            | Returns (sys', h', calls) \<Rightarrow>
                calls = [Stat (path h), ListenPort (port h), ListenPath (path h), ForwardErrors] \<and>
                https_listening h')) \<and>
         (files sys (path h) = Some birthtime \<and> \<not> birthtime < init_time sys \<longrightarrow>
           (case start sys h of
              Throws err x \<Rightarrow> False
            | Returns (sys', h', calls) \<Rightarrow>
                calls = [Stat (path h), ListenPort (port h), ListenPath (path h), ForwardErrors] \<and>
                \<not> https_listening h' \<and>
                ErrorEvent ''listen EADDRINUSE: path'' \<in> set (emitted h') \<and>
                files sys' = files sys)) \<and>
         snd (stop h) = [CloseHttp, CloseHttps]"
  using unbound
  by (auto simp: start_def stale_def stop_def Let_def)

theorem start_cleanup_before_bind_witness:
  "start stale_boot watched_server =
     Returns (stale_boot\<lparr>files := [''.https-sock'' \<mapsto> 10000]\<rparr>,
              watched_server\<lparr>http_listening := True, https_listening := True\<rparr>,
              [Stat ''.https-sock'', Unlink ''.https-sock'', ListenPort (Num 6110),
               ListenPath ''.https-sock'', ForwardErrors]) \<and>
   start clean_boot watched_server =
     Returns (clean_boot\<lparr>files := [''.https-sock'' \<mapsto> 10000]\<rparr>,
              watched_server\<lparr>http_listening := True, https_listening := True\<rparr>,
              [Stat ''.https-sock'', ListenPort (Num 6110),
               ListenPath ''.https-sock'', ForwardErrors]) \<and>
   start second_instance watched_server =
     Returns (second_instance,
              watched_server\<lparr>emitted := [ErrorEvent ''listen EADDRINUSE: port'',
                                        ErrorEvent ''listen EADDRINUSE: path'']\<rparr>,
              [Stat ''.https-sock'', ListenPort (Num 6110),
               ListenPath ''.https-sock'', ForwardErrors])"
  using start_cleanup_before_bind [of watched_server 6110 stale_boot 0]
        start_cleanup_before_bind [of watched_server 6110 clean_boot 0]
        start_cleanup_before_bind [of watched_server 6110 second_instance 9000]
  by (simp add: start_def stale_def init_time_def setSeconds_def getSeconds_def
      ToIntegerOrInfinity_def stale_boot_def clean_boot_def second_instance_def watched_server_def idle_server_def has_listener_def
      Let_def)

lemma ToIntegerOrInfinity_mod:
  "ToIntegerOrInfinity x * 1000 = (if 0 \<le> x then x - x mod 1000 else x + (- x) mod 1000)"
proof (cases "0 \<le> x")
  case True
  have "x div 1000 * 1000 = x - x mod 1000"
    using div_mult_mod_eq [of x 1000] by linarith
  then show ?thesis
    using True by (simp add: ToIntegerOrInfinity_def)
next
  case False
  have "(- x) div 1000 * 1000 = - x - (- x) mod 1000"
    using div_mult_mod_eq [of "- x" 1000] by linarith
  then show ?thesis
    using False by (simp add: ToIntegerOrInfinity_def)
qed

lemma ToIntegerOrInfinity_close:
  "x - 1000 < ToIntegerOrInfinity x * 1000 \<and> ToIntegerOrInfinity x * 1000 < x + 1000"
proof (cases "0 \<le> x")
  case True
  have "0 \<le> x mod 1000" and "x mod 1000 < 1000"
    by simp_all
  moreover have "ToIntegerOrInfinity x * 1000 = x - x mod 1000"
    using True by (simp add: ToIntegerOrInfinity_mod)
  ultimately show ?thesis
    by linarith
next
  case False
  have "0 \<le> (- x) mod 1000" and "(- x) mod 1000 < 1000"
    by simp_all
  moreover have "ToIntegerOrInfinity x * 1000 = x + (- x) mod 1000"
    using False by (simp add: ToIntegerOrInfinity_mod)
  ultimately show ?thesis
    by linarith
qed

lemma ToIntegerOrInfinity_whole:
  assumes "x mod 1000 = 0"
  shows "ToIntegerOrInfinity x * 1000 = x"
proof -
  have "1000 dvd x"
    using assms by (rule mod_0_imp_dvd)
  then have "1000 dvd - x"
    by (simp only: dvd_minus_iff)
  then have "(- x) mod 1000 = 0"
    by (rule dvd_imp_mod_0)
  then show ?thesis
    using assms by (simp only: ToIntegerOrInfinity_mod) simp
qed

text \<open>
  How far the computed time is from the start of the process. The time \<^verbatim>\<open>start\<close> computes differs from the current time minus the uptime
  by less than a second, and equals it when the uptime is a whole number of seconds.
\<close>

theorem init_time_within_a_second:
  "now sys - uptime sys - 1000 < init_time sys \<and>
   init_time sys < now sys - uptime sys + 1000 \<and>
   (uptime sys mod 1000 = 0 \<longrightarrow> init_time sys = now sys - uptime sys)"
proof -
  define x where "x = getSeconds (now sys) * 1000 - uptime sys"
  have shape: "init_time sys = now sys - uptime sys - x + ToIntegerOrInfinity x * 1000"
    by (simp add: init_time_def setSeconds_def x_def)
  have whole: "ToIntegerOrInfinity x * 1000 = x" if "uptime sys mod 1000 = 0"
  proof (rule ToIntegerOrInfinity_whole)
    have "1000 dvd uptime sys"
      using that by (rule mod_0_imp_dvd)
    then have "1000 dvd x"
      unfolding x_def by (simp add: dvd_diff)
    then show "x mod 1000 = 0"
      by (rule dvd_imp_mod_0)
  qed
  show ?thesis
    using shape ToIntegerOrInfinity_close [of x] whole by auto
qed

theorem init_time_within_a_second_witness:
  "init_time (crash_loop\<lparr>uptime := 3000\<rparr>) = 7000"
  using init_time_within_a_second [of "crash_loop\<lparr>uptime := 3000\<rparr>"]
  by (simp add: crash_loop_def)

section \<open>The front-end multiplexer: properties\<close>

text \<open>
  The splice as the handler sets it up. A first chunk that starts with the byte 0x16 makes
  the handler open a connection to the relay path, pipe the two connections into each other
  and write the whole chunk to the relay, whatever follows the first byte. Every later chunk
  of one side is written unchanged to the other, and the end of one side ends the other.
  The handlers for \<^verbatim>\<open>error\<close> call \<^verbatim>\<open>end\<close> on the connection that
  reported the error.
\<close>

lemma tls_connection_spliced:
  "socketForwarder h (CHR 0x16 # payload) =
     [CreateConnection (path h), Pipe Socket Conn, Pipe Conn Socket,
      Write Conn (CHR 0x16 # payload),
      OnceEnd Conn OnError Conn, OnceEnd Conn OnEnd Socket,
      OnceEnd Socket OnError Socket, OnceEnd Socket OnEnd Conn] \<and>
   on_data (socketForwarder h (CHR 0x16 # payload)) Socket chunk = [Write Conn chunk] \<and>
   on_data (socketForwarder h (CHR 0x16 # payload)) Conn chunk = [Write Socket chunk] \<and>
   on_event (socketForwarder h (CHR 0x16 # payload)) Socket OnEnd
     = [End Conn None, End Conn None] \<and>
   on_event (socketForwarder h (CHR 0x16 # payload)) Conn OnEnd
     = [End Socket None, End Socket None] \<and>
   on_event (socketForwarder h (CHR 0x16 # payload)) Conn OnError = [End Conn None] \<and>
   on_event (socketForwarder h (CHR 0x16 # payload)) Socket OnError = [End Socket None]"
  by (simp add: socketForwarder_def relay_def)

text \<open>
  C5. A transport error on one side does not tear down both connections. On a spliced TLS
  connection, an error of the connection to the relay makes the handlers call
  \<^verbatim>\<open>conn.end()\<close> and nothing on the accepted socket, and an error of the accepted
  socket makes them call \<^verbatim>\<open>socket.end()\<close> and nothing on the connection to the
  relay: the peer stays open. The hooks for \<^verbatim>\<open>end\<close> beside them do end the peer.
\<close>

theorem relay_error_leaves_client_open:
  "on_event (socketForwarder idle_server tls_hello) Conn OnError = [End Conn None] \<and>
   End Socket None \<notin> set (on_event (socketForwarder idle_server tls_hello) Conn OnError) \<and>
   on_event (socketForwarder idle_server tls_hello) Socket OnError = [End Socket None] \<and>
   End Conn None \<notin> set (on_event (socketForwarder idle_server tls_hello) Socket OnError) \<and>
   End Socket None \<in> set (on_event (socketForwarder idle_server tls_hello) Conn OnEnd) \<and>
   End Conn None \<in> set (on_event (socketForwarder idle_server tls_hello) Socket OnEnd)"
  by (simp add: socketForwarder_def relay_def tls_hello_def)

lemma decimal_308: "decimal 308 = ''308''"
  by (simp add: digit_def)

lemma decimal_400: "decimal 400 = ''400''"
  by (simp add: digit_def)

text \<open>
  \<^verbatim>\<open>has\<close> answers true for every name the registry object inherits, whatever is
  registered.
\<close>

lemma has_inherited:
  assumes "k \<in> set Object_prototype_keys"
  shows "has h k"
  using assms by (simp add: has_def split: option.splits)

text \<open>
  C6. A plaintext request whose Host value is \<^verbatim>\<open>constructor\<close> is answered with
  the 308 redirect although no domain is registered: \<^verbatim>\<open>has\<close> finds the property
  that the registry object inherits.
\<close>

theorem inherited_key_redirected:
  "domains idle_server ''constructor'' = None \<and>
   socketForwarder idle_server probe =
     [Write Socket (''HTTP/1.1 308 Permanent Redirect'' @ CRLF @
                    ''Content-Type: text/plain'' @ CRLF @
                    ''Location: https://constructor/x'' @ CRLF @
                    ''Connection: closed'' @ CRLF @ CRLF),
      End Socket (Some ''Response 308: Redirecting to secured request.'')]"
  by (simp add: socketForwarder_def probe_def plaintext_def redirect_def CRLF_def trim_def
      whitespace_def split_CRLF_def substring_def substring_from_def clamp_index_def headers_def
      has_def idle_server_def Object_prototype_keys_def STATUS_CODES_def decimal_308 Let_def
      del: decimal.simps)

lemma parse_get_known: "split_CRLF (trim get_known) = [''GET /x HTTP/1.1'', ''Host: a.example'']"
  by (simp add: get_known_def CRLF_def trim_def whitespace_def split_CRLF_def)

lemma parse_get_unknown: "split_CRLF (trim get_unknown) = [''GET /x HTTP/1.1'', ''Host: unknown.example'']"
  by (simp add: get_unknown_def CRLF_def trim_def whitespace_def split_CRLF_def)

text \<open>
  The plaintext decision for ordinary Host values. For a first chunk of ASCII bytes that
  does not start with the byte 0x16, and a registry that was never given the key
  \<^verbatim>\<open>__proto__\<close>: with fewer than two lines the answer is the 400 response; with
  two lines or more, and a Host value (the second line after its first space) that is not
  the name of an inherited property, the answer is the 308 response for that domain and the
  path of the request line when the domain is registered, and the 400 response when it is
  not. Both responses are written in full.
\<close>

theorem plaintext_decision:
  assumes plain: "data = [] \<or> hd data \<noteq> CHR 0x16"
    and ascii: "\<forall>c \<in> set data. of_char c < (128::nat)"
    and prototype: "domains h ''__proto__'' = None"
  shows "(length (split_CRLF (trim data)) < 2 \<longrightarrow> socketForwarder h data = bad_request) \<and>
         (split_CRLF (trim data) = line0 # line1 # rest \<and>
          domain = substring_from line1 (indexOf line1 CHR '' '' + 1) \<and>
          domain \<notin> set Object_prototype_keys \<longrightarrow>
            socketForwarder h data =
              (if domains h domain = None then bad_request
               else redirect domain
                      (substring line0 (indexOf line0 CHR '' '' + 1) (lastIndexOf line0 CHR '' '')))) \<and>
         redirect domain target =
           [Write Socket (''HTTP/1.1 308 Permanent Redirect'' @ CRLF @
                          ''Content-Type: text/plain'' @ CRLF @
                          ''Location: https://'' @ domain @ target @ CRLF @
                          ''Connection: closed'' @ CRLF @ CRLF),
            End Socket (Some ''Response 308: Redirecting to secured request.'')] \<and>
         bad_request =
           [Write Socket (''HTTP/1.1 400 Bad Request'' @ CRLF @
                          ''Content-Type: text/plain'' @ CRLF @
                          ''Connection: closed'' @ CRLF @ CRLF),
            End Socket (Some ''Error 400: Unknown domain; Domain incorrectly pointing to this server.'')]"
proof -
  have not_tls: "socketForwarder h data = plaintext h data"
    using plain by (cases data) (simp_all add: socketForwarder_def)
  have short: "plaintext h data = bad_request" if "length (split_CRLF (trim data)) < 2"
    using that by (auto simp: plaintext_def split: list.splits)
  have long: "plaintext h data =
      (if domains h domain = None then bad_request
       else redirect domain
              (substring line0 (indexOf line0 CHR '' '' + 1) (lastIndexOf line0 CHR '' '')))"
    if "split_CRLF (trim data) = line0 # line1 # rest"
      and "domain = substring_from line1 (indexOf line1 CHR '' '' + 1)"
      and "domain \<notin> set Object_prototype_keys"
    using that by (auto simp: plaintext_def has_def Let_def split: option.splits)
  have r308: "redirect domain target =
           [Write Socket (''HTTP/1.1 308 Permanent Redirect'' @ CRLF @
                          ''Content-Type: text/plain'' @ CRLF @
                          ''Location: https://'' @ domain @ target @ CRLF @
                          ''Connection: closed'' @ CRLF @ CRLF),
            End Socket (Some ''Response 308: Redirecting to secured request.'')]"
    by (simp add: redirect_def headers_def STATUS_CODES_def decimal_308 del: decimal.simps)
  have r400: "bad_request =
           [Write Socket (''HTTP/1.1 400 Bad Request'' @ CRLF @
                          ''Content-Type: text/plain'' @ CRLF @
                          ''Connection: closed'' @ CRLF @ CRLF),
            End Socket (Some ''Error 400: Unknown domain; Domain incorrectly pointing to this server.'')]"
    by (simp add: bad_request_def headers_def STATUS_CODES_def decimal_400 del: decimal.simps)
  have few: "length (split_CRLF (trim data)) < 2 \<longrightarrow> socketForwarder h data = bad_request"
    using short not_tls by simp
  have two: "split_CRLF (trim data) = line0 # line1 # rest \<and>
          domain = substring_from line1 (indexOf line1 CHR '' '' + 1) \<and>
          domain \<notin> set Object_prototype_keys \<longrightarrow>
            socketForwarder h data =
              (if domains h domain = None then bad_request
               else redirect domain
                      (substring line0 (indexOf line0 CHR '' '' + 1) (lastIndexOf line0 CHR '' '')))"
  proof (intro impI, elim conjE)
    assume "split_CRLF (trim data) = line0 # line1 # rest"
      and "domain = substring_from line1 (indexOf line1 CHR '' '' + 1)"
      and "domain \<notin> set Object_prototype_keys"
    then show "socketForwarder h data =
              (if domains h domain = None then bad_request
               else redirect domain
                      (substring line0 (indexOf line0 CHR '' '' + 1) (lastIndexOf line0 CHR '' '')))"
      unfolding not_tls by (rule long)
  qed
  show ?thesis
    by (intro conjI few two r308 r400)
qed

theorem plaintext_decision_witness:
  "socketForwarder silent_server get_known = redirect ''a.example'' ''/x'' \<and>
   socketForwarder silent_server get_unknown = bad_request \<and>
   socketForwarder silent_server ''hello'' = bad_request"
  using plaintext_decision [where data = get_known and ?line0.0 = "''GET /x HTTP/1.1''"
           and ?line1.0 = "''Host: a.example''" and rest = "[]" and domain = "''a.example''"
           and h = silent_server]
        plaintext_decision [where data = get_unknown and ?line0.0 = "''GET /x HTTP/1.1''"
           and ?line1.0 = "''Host: unknown.example''" and rest = "[]"
           and domain = "''unknown.example''" and h = silent_server]
        plaintext_decision [where data = "''hello''" and h = silent_server]
  by (simp add: parse_get_known parse_get_unknown substring_from_def substring_def
      clamp_index_def Object_prototype_keys_def silent_server_def idle_server_def
      get_known_def get_unknown_def CRLF_def trim_def whitespace_def split_CRLF_def)

section \<open>The certificate loader: properties\<close>

text \<open>
  C7. When both files can be read and the construction of the context throws on their
  bytes, the loader throws what the construction threw: no \<^verbatim>\<open>error\<close> event is
  emitted, although a listener for it is registered.
\<close>

theorem construction_failure_escapes:
  "register readable reject_malformed pending_server a_example_files =
     Throws (Error ''PEM routines: no start line'') pending_server \<and>
   emitted pending_server = [] \<and>
   has_listener (listeners pending_server) ''error''"
  by (simp add: register_def readable_def reject_malformed_def pending_server_def
      a_example_files_def idle_server_def has_listener_def notify_def Let_def)

text \<open>
  Read failures. When the key or the certificate cannot be read, the loader emits the
  \<^verbatim>\<open>error\<close> event and changes nothing else: the registry is as it was. With a
  listener for \<^verbatim>\<open>error\<close> the call returns; without one the emitter throws the
  error out of the call.
\<close>

theorem read_failure_notifies:
  assumes unread: "readFile (opt_key opt) = None \<or> readFile (opt_cert opt) = None"
    and msg: "msg = ''Could not create secureContext for '' @ opt_domain opt @ ''.''"
  shows "register readFile createSecureContext h opt =
           (if has_listener (listeners h) ''error''
            then Returns (h\<lparr>emitted := emitted h @ [ErrorEvent msg]\<rparr>)
            else Throws (Error msg) (h\<lparr>emitted := emitted h @ [ErrorEvent msg]\<rparr>))"
  using unread msg
  by (auto simp: register_def notify_def Let_def split: option.splits)

theorem read_failure_notifies_witness:
  "register unreadable reject_malformed pending_server a_example_files =
     Returns (pending_server\<lparr>emitted :=
        [ErrorEvent ''Could not create secureContext for a.example.'']\<rparr>) \<and>
   domains (pending_server\<lparr>emitted :=
        [ErrorEvent ''Could not create secureContext for a.example.'']\<rparr>) ''a.example''
     = Some \<lparr>entry_emitter = [], entry_context = Undefined\<rparr>"
  using read_failure_notifies [of unreadable a_example_files
          "''Could not create secureContext for a.example.''" reject_malformed pending_server]
  by (simp add: unreadable_def a_example_files_def pending_server_def idle_server_def
      has_listener_def)

end
